theory Spec2Isabelle
  imports Main
begin

section \<open>Python values, exceptions and the configuration source\<close>

text \<open>
  The module \<^verbatim>\<open>semantic_kernel/utils/settings.py\<close> is a family of accessors, one per
  service, each reading the file \<^verbatim>\<open>.env\<close> and returning a string, a tuple or a dict.
  A Python value returned by an accessor is \<open>None\<close>, a string, a tuple or a dict (an
  association list in insertion order).  Characters are code points below 256; the
  only characters the code looks at are \<open>=\<close>, the double quote and white space.
\<close>

datatype pyval = PNone | PStr string | PTuple "pyval list" | PDict "(string \<times> pyval) list"

text \<open>
  The exceptions the accessors can raise: a failed \<^verbatim>\<open>assert\<close> with its message, the
  \<^verbatim>\<open>ValueError\<close> of a tuple unpacking (\<open>UnpackValueError expected got\<close>), and the
  \<^verbatim>\<open>OSError\<close> of \<^verbatim>\<open>open(".env", "r")\<close> on a file that cannot be opened.  Assertions
  are modelled as enforced (the interpreter is not run with \<^verbatim>\<open>-O\<close>).
\<close>

datatype error = AssertionError string | UnpackValueError nat nat | OSError

type_synonym 'a result = "error + 'a"

text \<open>
  \<^verbatim>\<open>dotenv_values(".env")\<close> belongs to the library python-dotenv, so the dict it returns
  is a parameter of the model: a key is absent, or present with no value (a line without
  \<open>=\<close>, for which the library stores \<open>None\<close>), or present with a string.
  \<^verbatim>\<open>config.get(key, None)\<close> gives \<open>None\<close> in the first two cases.
\<close>

type_synonym dotenv = "string \<rightharpoonup> string option"

definition config_get :: "dotenv \<Rightarrow> string \<Rightarrow> string option" where
  "config_get config key = (case config key of None \<Rightarrow> None | Some v \<Rightarrow> v)"

text \<open>The Python value of an \<^verbatim>\<open>Optional[str]\<close>.\<close>

fun opt :: "string option \<Rightarrow> pyval" where
  "opt None = PNone"
| "opt (Some s) = PStr s"

text \<open>Truth value of an \<^verbatim>\<open>Optional[str]\<close>, as \<^verbatim>\<open>assert x\<close> tests it.\<close>

fun truthy :: "string option \<Rightarrow> bool" where
  "truthy None = False"
| "truthy (Some s) = (s \<noteq> [])"

text \<open>\<^verbatim>\<open>x or ""\<close>\<close>

definition or_empty :: "string option \<Rightarrow> string" where
  "or_empty x = (if truthy x then (case x of Some s \<Rightarrow> s | None \<Rightarrow> []) else [])"

text \<open>
  Tuple unpacking \<^verbatim>\<open>a, b, c = t\<close> and \<^verbatim>\<open>a, b, c, d = t\<close> of a tuple given by the list
  of its components.
\<close>

fun unpack3 :: "pyval list \<Rightarrow> (pyval \<times> pyval \<times> pyval) result" where
  "unpack3 [a, b, c] = Inr (a, b, c)"
| "unpack3 vs = Inl (UnpackValueError 3 (length vs))"

fun unpack4 :: "pyval list \<Rightarrow> (pyval \<times> pyval \<times> pyval \<times> pyval) result" where
  "unpack4 [a, b, c, d] = Inr (a, b, c, d)"
| "unpack4 vs = Inl (UnpackValueError 4 (length vs))"

text \<open>\<^verbatim>\<open>d[key] = value\<close> on a dict kept in insertion order.\<close>

fun dict_set :: "(string \<times> pyval) list \<Rightarrow> string \<Rightarrow> pyval \<Rightarrow> (string \<times> pyval) list" where
  "dict_set [] key v = [(key, v)]"
| "dict_set ((k, w) # d) key v = (if k = key then (k, v) # d else (k, w) # dict_set d key v)"

section \<open>String operations of the line-scanning accessors\<close>

definition dquote :: char where
  "dquote = CHR 0x22"

text \<open>\<^verbatim>\<open>s.startswith(p)\<close>\<close>

definition startswith :: "string \<Rightarrow> string \<Rightarrow> bool" where
  "startswith s p = (take (length p) s = p)"

text \<open>
  \<^verbatim>\<open>s.split(sep)\<close> for a separator of one character: the pieces between the
  occurrences of \<open>sep\<close>, always at least one piece.
\<close>

fun split :: "char \<Rightarrow> string \<Rightarrow> string list" where
  "split sep [] = [[]]"
| "split sep (c # cs) =
     (if c = sep then [] # split sep cs
      else (case split sep cs of p # ps \<Rightarrow> (c # p) # ps | [] \<Rightarrow> [[c]]))"

text \<open>\<^verbatim>\<open>sep.join(parts)\<close>\<close>

fun join :: "string \<Rightarrow> string list \<Rightarrow> string" where
  "join sep [] = []"
| "join sep [p] = p"
| "join sep (p # q # ps) = p @ sep @ join sep (q # ps)"

text \<open>
  White space as \<^verbatim>\<open>str.strip()\<close> sees it, among the code points below 256: tab, line
  feed, vertical tab, form feed, carriage return, the separators 0x1C to 0x1F, space,
  0x85 and 0xA0.
\<close>

definition isspace :: "char \<Rightarrow> bool" where
  "isspace c = (c \<in> {CHR 0x09, CHR 0x0A, CHR 0x0B, CHR 0x0C, CHR 0x0D,
                      CHR 0x1C, CHR 0x1D, CHR 0x1E, CHR 0x1F, CHR 0x20, CHR 0x85, CHR 0xA0})"

text \<open>
  Stripping removes every leading and every trailing character that satisfies the
  predicate: \<^verbatim>\<open>s.strip()\<close> with \<open>isspace\<close>, \<^verbatim>\<open>s.strip(chars)\<close> with membership in
  \<open>chars\<close>.
\<close>

definition strip_by :: "(char \<Rightarrow> bool) \<Rightarrow> string \<Rightarrow> string" where
  "strip_by P s = rev (dropWhile P (rev (dropWhile P s)))"

definition strip :: "string \<Rightarrow> string" where
  "strip s = strip_by isspace s"

definition strip_chars :: "string \<Rightarrow> string \<Rightarrow> string" where
  "strip_chars chars s = strip_by (\<lambda>c. c \<in> set chars) s"

text \<open>
  The two statements every branch of the scanning loops repeats:
  \<^verbatim>\<open>parts = line.split("=")[1:]\<close> and \<^verbatim>\<open>"=".join(parts).strip().strip('"')\<close>.
  The slice \<open>[1:]\<close> of a list is its tail (the empty list for the empty list).
\<close>

definition parse_value :: "string \<Rightarrow> string" where
  "parse_value line =
     (let parts = tl (split CHR ''='' line)
      in strip_chars [dquote] (strip (join ''='' parts)))"

section \<open>The accessors that read the key-value mapping\<close>


definition azure_openai_settings_from_dot_env :: "dotenv \<Rightarrow> bool \<Rightarrow> bool \<Rightarrow> pyval list result" where
  "azure_openai_settings_from_dot_env config include_deployment include_api_version =
     (let deployment = config_get config ''AZURE_OPENAI_DEPLOYMENT_NAME'';
          api_key = config_get config ''AZURE_OPENAI_API_KEY'';
          endpoint = config_get config ''AZURE_OPENAI_ENDPOINT'';
          api_version = config_get config ''AZURE_OPENAI_API_VERSION''
      in if include_deployment \<and> deployment = None
         then Inl (AssertionError ''Azure OpenAI deployment name not found in .env file'')
         else if include_api_version \<and> api_version = None
         then Inl (AssertionError ''Azure OpenAI API version not found in .env file'')
         else if \<not> truthy api_key
         then Inl (AssertionError ''Azure OpenAI API key not found in .env file'')
         else if \<not> truthy endpoint
         then Inl (AssertionError ''Azure OpenAI endpoint not found in .env file'')
         else if include_api_version
         then Inr [PStr (or_empty deployment), opt api_key, opt endpoint, PStr (or_empty api_version)]
         else Inr [PStr (or_empty deployment), opt api_key, opt endpoint])"

definition azure_openai_settings_from_dot_env_as_dict ::
  "dotenv \<Rightarrow> bool \<Rightarrow> bool \<Rightarrow> (string \<times> pyval) list result" where
  "azure_openai_settings_from_dot_env_as_dict config include_deployment include_api_version =
     (case azure_openai_settings_from_dot_env config include_deployment include_api_version of
        Inl e \<Rightarrow> Inl e
      | Inr t \<Rightarrow>
          (case unpack4 t of
             Inl e \<Rightarrow> Inl e
           | Inr (deployment_name, api_key, endpoint, api_version) \<Rightarrow>
               (let ret = [(''api_key'', api_key), (''endpoint'', endpoint)];
                    ret = (if include_deployment
                           then dict_set ret ''deployment_name'' deployment_name else ret);
                    ret = (if include_api_version
                           then dict_set ret ''api_version'' api_version else ret)
                in Inr ret)))"








definition azure_aisearch_settings_from_dot_env :: "dotenv \<Rightarrow> bool \<Rightarrow> pyval list result" where
  "azure_aisearch_settings_from_dot_env config include_index_name =
     (let api_key = config_get config ''AZURE_AISEARCH_API_KEY'';
          url = config_get config ''AZURE_AISEARCH_URL''
      in if url = None then Inl (AssertionError ''Azure AI Search URL not found in .env file'')
         else if api_key = None
         then Inl (AssertionError ''Azure AI Search API key not found in .env file'')
         else if \<not> include_index_name then Inr [opt api_key, opt url]
         else (let index_name = config_get config ''AZURE_AISEARCH_INDEX_NAME''
               in if index_name = None
                  then Inl (AssertionError ''Azure AI Search index name not found in .env file'')
                  else Inr [opt api_key, opt url, opt index_name]))"

definition azure_aisearch_settings_from_dot_env_as_dict ::
  "dotenv \<Rightarrow> (string \<times> pyval) list result" where
  "azure_aisearch_settings_from_dot_env_as_dict config =
     (case azure_aisearch_settings_from_dot_env config True of
        Inl e \<Rightarrow> Inl e
      | Inr t \<Rightarrow>
          (case unpack3 t of
             Inl e \<Rightarrow> Inl e
           | Inr (api_key, url, index_name) \<Rightarrow>
               Inr [(''authentication'', PDict [(''type'', PStr ''api_key''), (''key'', api_key)]),
                    (''endpoint'', url), (''index_name'', index_name)]))"

definition azure_key_vault_settings_from_dot_env :: "dotenv \<Rightarrow> bool \<Rightarrow> bool \<Rightarrow> pyval list result" where
  "azure_key_vault_settings_from_dot_env config include_client_id include_client_secret =
     (let endpoint = config_get config ''AZURE_KEY_VAULT_ENDPOINT'';
          client_id = config_get config ''AZURE_KEY_VAULT_CLIENT_ID'';
          client_secret = config_get config ''AZURE_KEY_VAULT_CLIENT_SECRET''
      in if endpoint = None
         then Inl (AssertionError ''Azure Key Vault endpoint not found in .env file'')
         else if include_client_id \<and> client_id = None
         then Inl (AssertionError ''Azure Key Vault client ID not found in .env file'')
         else if include_client_secret \<and> client_secret = None
         then Inl (AssertionError ''Azure Key Vault client secret not found in .env file'')
         else if include_client_id \<and> include_client_secret
         then Inr [opt endpoint, opt client_id, opt client_secret]
         else Inr [opt endpoint, opt client_id])"




section \<open>The line-scanning accessors\<close>

text \<open>
  Pinecone and AstraDB open \<^verbatim>\<open>.env\<close> themselves.  Their argument is the list
  \<^verbatim>\<open>f.readlines()\<close> returns (each line with its line terminator), or \<open>None\<close> when
  \<^verbatim>\<open>open\<close> raises.  The body of each \<^verbatim>\<open>for\<close> loop is a step function on the variables
  the loop assigns; the loop is the left fold of that step over the lines.
\<close>

fun pinecone_line :: "string option \<times> string option \<Rightarrow> string \<Rightarrow> string option \<times> string option" where
  "pinecone_line (api_key, environment) line =
     (if startswith line ''PINECONE_API_KEY'' then (Some (parse_value line), environment)
      else if startswith line ''PINECONE_ENVIRONMENT'' then (api_key, Some (parse_value line))
      else (api_key, environment))"

definition pinecone_settings_from_dot_env :: "string list option \<Rightarrow> pyval list result" where
  "pinecone_settings_from_dot_env env_file =
     (case env_file of
        None \<Rightarrow> Inl OSError
      | Some lines \<Rightarrow>
          (case foldl pinecone_line (None, None) lines of
             (api_key, environment) \<Rightarrow>
               if \<not> truthy api_key
               then Inl (AssertionError ''Pinecone API key not found in .env file'')
               else if \<not> truthy environment
               then Inl (AssertionError ''Pinecone environment not found in .env file'')
               else Inr [opt api_key, opt environment]))"

fun astradb_line ::
  "string option \<times> string option \<times> string option \<times> string option \<Rightarrow> string
   \<Rightarrow> string option \<times> string option \<times> string option \<times> string option" where
  "astradb_line (app_token, db_id, region, keyspace) line =
     (if startswith line ''ASTRADB_APP_TOKEN'' then (Some (parse_value line), db_id, region, keyspace)
      else if startswith line ''ASTRADB_ID'' then (app_token, Some (parse_value line), region, keyspace)
      else if startswith line ''ASTRADB_REGION'' then (app_token, db_id, Some (parse_value line), keyspace)
      else if startswith line ''ASTRADB_KEYSPACE'' then (app_token, db_id, region, Some (parse_value line))
      else (app_token, db_id, region, keyspace))"

definition astradb_settings_from_dot_env :: "string list option \<Rightarrow> pyval list result" where
  "astradb_settings_from_dot_env env_file =
     (case env_file of
        None \<Rightarrow> Inl OSError
      | Some lines \<Rightarrow>
          (case foldl astradb_line (None, None, None, None) lines of
             (app_token, db_id, region, keyspace) \<Rightarrow>
               if \<not> truthy app_token
               then Inl (AssertionError ''Astradb Application token not found in .env file'')
               else if \<not> truthy db_id
               then Inl (AssertionError ''Astradb ID not found in .env file'')
               else if \<not> truthy region
               then Inl (AssertionError ''Astradb Region not found in .env file'')
               else if \<not> truthy keyspace
               then Inl (AssertionError ''Astradb Keyspace name not found in .env file'')
               else Inr [opt app_token, opt db_id, opt region, opt keyspace]))"

section \<open>The accessors as one family\<close>


text \<open>One constructor per accessor, carrying the accessor's flag arguments.\<close>

datatype accessor =
    OpenAI
  | AzureOpenAI bool bool
  | AzureOpenAIDict bool bool
  | Postgres
  | Pinecone
  | AstraDB
  | Weaviate
  | BingSearch
  | MongoDBAtlas
  | GooglePalm
  | AzureCosmosDB
  | Redis
  | AzureAISearch bool
  | AzureAISearchDict
  | AzureKeyVault bool bool
  | AzureKeyVaultDict
  | BookingSample
  | BookingSampleDict




text \<open>
  What a list of lines holds for a key, as the scanning loops read it: the parsed value
  of the last line whose text begins with the key.
\<close>

definition last_value :: "string \<Rightarrow> string list \<Rightarrow> string option" where
  "last_value key lines =
     (case rev (filter (\<lambda>l. startswith l key) lines) of
        [] \<Rightarrow> None
      | l # _ \<Rightarrow> Some (parse_value l))"









section \<open>Splitting, joining and stripping\<close>

lemma split_not_Nil: "split sep s \<noteq> []"
  by (induction s) (auto split: list.splits)

lemma join_split: "join [sep] (split sep s) = s"
proof (induction s)
  case Nil
  show ?case by simp
next
  case (Cons c s)
  obtain p ps where ps: "split sep s = p # ps"
    using split_not_Nil [of sep s] by (cases "split sep s") auto
  show ?case
  proof (cases "c = sep")
    case True
    with Cons ps show ?thesis by simp
  next
    case False
    with Cons ps show ?thesis by (cases ps) auto
  qed
qed

lemma split_prefix: "sep \<notin> set k \<Longrightarrow> split sep (k @ sep # rest) = k # split sep rest"
  by (induction k) (auto split: list.splits)

lemma join_tl_split:
  assumes "sep \<notin> set k"
  shows "join [sep] (tl (split sep (k @ sep # rest))) = rest"
  using assms by (simp add: split_prefix join_split)

lemma strip_by_drop_outer:
  assumes "\<forall>c \<in> set pre. P c" and "\<forall>c \<in> set post. P c"
  shows "strip_by P (pre @ s @ post) = strip_by P s"
proof -
  have l: "dropWhile P (pre @ s @ post) = dropWhile P (s @ post)"
    using assms(1) by (simp add: dropWhile_append)
  show ?thesis
  proof (cases "\<forall>c \<in> set s. P c")
    case True
    then have "dropWhile P (s @ post) = []" and e: "dropWhile P s = []"
      using assms(2) by auto
    with l have a: "dropWhile P (pre @ s @ post) = []" by simp
    show ?thesis unfolding strip_by_def a e by simp
  next
    case False
    then have d: "dropWhile P (s @ post) = dropWhile P s @ post"
      by (auto simp: dropWhile_append)
    have "dropWhile P (rev post @ rev (dropWhile P s)) = dropWhile P (rev (dropWhile P s))"
      using assms(2) by (simp add: dropWhile_append)
    with l d show ?thesis by (simp add: strip_by_def)
  qed
qed

lemma strip_by_id:
  assumes "s = [] \<or> (\<not> P (hd s) \<and> \<not> P (last s))"
  shows "strip_by P s = s"
proof (cases s)
  case Nil
  then show ?thesis by (simp add: strip_by_def)
next
  case (Cons a t)
  with assms have a: "\<not> P a" and b: "\<not> P (last s)" by auto
  from Cons a have "dropWhile P s = s" by simp
  moreover from Cons b have "dropWhile P (rev s) = rev s"
    by (cases "rev s") (auto simp: last_rev hd_rev [symmetric] dest!: arg_cong [where f = hd])
  ultimately show ?thesis by (simp add: strip_by_def)
qed

lemma parse_value_assignment:
  assumes "CHR ''='' \<notin> set key"
  shows "parse_value (key @ ''='' @ rest) = strip_chars [dquote] (strip rest)"
  using join_tl_split [OF assms, of rest] by (simp add: parse_value_def)

lemma parse_value_quoted:
  assumes "CHR ''='' \<notin> set key" and "\<forall>c \<in> set ws. isspace c"
  shows "parse_value (key @ ''='' @ replicate (Suc n) dquote @ v @ replicate (Suc m) dquote @ ws)
         = strip_chars [dquote] v"
proof -
  let ?q = "replicate (Suc n) dquote @ v @ replicate (Suc m) dquote"
  have nsp: "\<not> isspace dquote" by (simp add: isspace_def dquote_def)
  have "strip (?q @ ws) = strip ?q"
    using strip_by_drop_outer [of "[]" isspace ws ?q] assms(2) by (simp add: strip_def)
  also have "\<dots> = ?q"
    unfolding strip_def by (rule strip_by_id) (simp add: nsp)
  finally have "strip (?q @ ws) = ?q" .
  moreover have "strip_chars [dquote] ?q = strip_chars [dquote] v"
    unfolding strip_chars_def by (rule strip_by_drop_outer) simp_all
  ultimately show ?thesis
    using parse_value_assignment [OF assms(1), of "?q @ ws"] by simp
qed

section \<open>The scanning loops\<close>

text \<open>
  Each variable of a scanning loop ends as the parsed value of the last line that begins
  with the text of its key: the key texts of one loop are pairwise not prefixes of one
  another, so at most one branch of the loop body fits a line.
\<close>

lemma last_value_Nil: "last_value key [] = None"
  by (simp add: last_value_def)

lemma last_value_snoc:
  "last_value key (ls @ [l]) = (if startswith l key then Some (parse_value l) else last_value key ls)"
  by (simp add: last_value_def)

lemma last_value_decomp:
  assumes "startswith l key" and "\<forall>l' \<in> set post. \<not> startswith l' key"
  shows "last_value key (pre @ l # post) = Some (parse_value l)"
proof -
  have "filter (\<lambda>l. startswith l key) post = []"
    using assms(2) by (simp add: filter_empty_conv)
  with assms(1) show ?thesis by (simp add: last_value_def)
qed

lemma last_value_None: "last_value key ls = None \<longleftrightarrow> (\<forall>l \<in> set ls. \<not> startswith l key)"
proof -
  have "last_value key ls = None \<longleftrightarrow> filter (\<lambda>l. startswith l key) ls = []"
    by (cases "rev (filter (\<lambda>l. startswith l key) ls)") (auto simp: last_value_def)
  then show ?thesis by (simp add: filter_empty_conv)
qed

lemma startswith_both:
  assumes "startswith l p" and "startswith l q" and "length p \<le> length q"
  shows "take (length p) q = p"
proof -
  have "take (length p) q = take (length p) (take (length q) l)"
    using assms(2) by (simp add: startswith_def)
  also have "\<dots> = take (length p) l"
    using assms(3) by (simp add: min_def)
  finally show ?thesis using assms(1) by (simp add: startswith_def)
qed

lemma pinecone_keys_apart:
  "startswith l ''PINECONE_API_KEY'' \<Longrightarrow> \<not> startswith l ''PINECONE_ENVIRONMENT''"
  using startswith_both [of l "''PINECONE_API_KEY''" "''PINECONE_ENVIRONMENT''"] by auto

lemma pinecone_scan:
  "foldl pinecone_line (None, None) lines =
     (last_value ''PINECONE_API_KEY'' lines, last_value ''PINECONE_ENVIRONMENT'' lines)"
proof (induction lines rule: rev_induct)
  case Nil
  show ?case by (simp add: last_value_Nil)
next
  case (snoc l ls)
  then show ?case
    using pinecone_keys_apart [of l] by (simp add: last_value_snoc)
qed

lemma astradb_keys_apart:
  "startswith l ''ASTRADB_APP_TOKEN'' \<Longrightarrow> \<not> startswith l ''ASTRADB_ID''"
  "startswith l ''ASTRADB_APP_TOKEN'' \<Longrightarrow> \<not> startswith l ''ASTRADB_REGION''"
  "startswith l ''ASTRADB_APP_TOKEN'' \<Longrightarrow> \<not> startswith l ''ASTRADB_KEYSPACE''"
  "startswith l ''ASTRADB_ID'' \<Longrightarrow> \<not> startswith l ''ASTRADB_REGION''"
  "startswith l ''ASTRADB_ID'' \<Longrightarrow> \<not> startswith l ''ASTRADB_KEYSPACE''"
  "startswith l ''ASTRADB_REGION'' \<Longrightarrow> \<not> startswith l ''ASTRADB_KEYSPACE''"
  using startswith_both [of l "''ASTRADB_ID''" "''ASTRADB_APP_TOKEN''"]
        startswith_both [of l "''ASTRADB_REGION''" "''ASTRADB_APP_TOKEN''"]
        startswith_both [of l "''ASTRADB_KEYSPACE''" "''ASTRADB_APP_TOKEN''"]
        startswith_both [of l "''ASTRADB_ID''" "''ASTRADB_REGION''"]
        startswith_both [of l "''ASTRADB_ID''" "''ASTRADB_KEYSPACE''"]
        startswith_both [of l "''ASTRADB_REGION''" "''ASTRADB_KEYSPACE''"]
  by auto

lemma astradb_scan:
  "foldl astradb_line (None, None, None, None) lines =
     (last_value ''ASTRADB_APP_TOKEN'' lines, last_value ''ASTRADB_ID'' lines,
      last_value ''ASTRADB_REGION'' lines, last_value ''ASTRADB_KEYSPACE'' lines)"
proof (induction lines rule: rev_induct)
  case Nil
  show ?case by (simp add: last_value_Nil)
next
  case (snoc l ls)
  then show ?case
    using astradb_keys_apart [of l] by (simp add: last_value_snoc)
qed

lemma pinecone_result:
  "pinecone_settings_from_dot_env (Some lines) =
     (if \<not> truthy (last_value ''PINECONE_API_KEY'' lines)
      then Inl (AssertionError ''Pinecone API key not found in .env file'')
      else if \<not> truthy (last_value ''PINECONE_ENVIRONMENT'' lines)
      then Inl (AssertionError ''Pinecone environment not found in .env file'')
      else Inr [opt (last_value ''PINECONE_API_KEY'' lines),
                opt (last_value ''PINECONE_ENVIRONMENT'' lines)])"
  by (simp add: pinecone_settings_from_dot_env_def pinecone_scan)

lemma astradb_result:
  "astradb_settings_from_dot_env (Some lines) =
     (if \<not> truthy (last_value ''ASTRADB_APP_TOKEN'' lines)
      then Inl (AssertionError ''Astradb Application token not found in .env file'')
      else if \<not> truthy (last_value ''ASTRADB_ID'' lines)
      then Inl (AssertionError ''Astradb ID not found in .env file'')
      else if \<not> truthy (last_value ''ASTRADB_REGION'' lines)
      then Inl (AssertionError ''Astradb Region not found in .env file'')
      else if \<not> truthy (last_value ''ASTRADB_KEYSPACE'' lines)
      then Inl (AssertionError ''Astradb Keyspace name not found in .env file'')
      else Inr [opt (last_value ''ASTRADB_APP_TOKEN'' lines), opt (last_value ''ASTRADB_ID'' lines),
                opt (last_value ''ASTRADB_REGION'' lines), opt (last_value ''ASTRADB_KEYSPACE'' lines)])"
  by (simp add: astradb_settings_from_dot_env_def astradb_scan)

section \<open>The tables of checks and messages, key by key\<close>






lemma parse_value_quoted_id:
  assumes "CHR ''='' \<notin> set key" and "\<forall>c \<in> set ws. isspace c"
    and "v = [] \<or> (hd v \<noteq> dquote \<and> last v \<noteq> dquote)"
  shows "parse_value (key @ ''='' @ replicate (Suc n) dquote @ v @ replicate (Suc m) dquote @ ws) = v"
proof -
  have "strip_chars [dquote] v = v"
    unfolding strip_chars_def using assms(3) by (intro strip_by_id) simp
  with parse_value_quoted [OF assms(1,2), of n v m] show ?thesis by simp
qed

lemma last_value_quoted:
  assumes "CHR ''='' \<notin> set key"
    and "v = [] \<or> (hd v \<noteq> dquote \<and> last v \<noteq> dquote)"
    and "\<forall>c \<in> set ws. isspace c"
    and "\<forall>l \<in> set post. \<not> startswith l key"
  shows "last_value key (pre @ (key @ ''='' @ [dquote] @ v @ [dquote] @ ws) # post) = Some v"
proof -
  have s: "startswith (key @ ''='' @ [dquote] @ v @ [dquote] @ ws) key"
    by (simp add: startswith_def)
  have "parse_value (key @ ''='' @ replicate (Suc 0) dquote @ v @ replicate (Suc 0) dquote @ ws) = v"
    using assms(1,3,2) by (rule parse_value_quoted_id)
  then show ?thesis using last_value_decomp [OF s assms(4), of pre] by simp
qed

lemmas string_defs = startswith_def parse_value_def strip_def strip_chars_def strip_by_def
  isspace_def dquote_def

section \<open>The claims\<close>

subsection \<open>C1: the dict variant of Azure OpenAI against the tuple accessor\<close>

text \<open>
  C1 says: for every pair of flag values and every source on which
  \<open>azure_openai_settings_from_dot_env\<close> succeeds,
  \<open>azure_openai_settings_from_dot_env_as_dict\<close> with the same flags succeeds too, and
  its fields are the components of the tuple.  The code does not do this when
  \<open>include_api_version\<close> is false (the default): the tuple accessor then returns three
  components, and the dict accessor unpacks its result into four names, which raises.
  Evaluated on a source with deployment name, API key and endpoint, with flags
  \<open>(True, False)\<close>: the tuple accessor returns the triple, the dict accessor fails with
  the unpacking error "expected 4, got 3".
\<close>

theorem azure_openai_as_dict_unpack_error:
  "azure_openai_settings_from_dot_env
     [''AZURE_OPENAI_DEPLOYMENT_NAME'' \<mapsto> Some ''d'', ''AZURE_OPENAI_API_KEY'' \<mapsto> Some ''k'',
      ''AZURE_OPENAI_ENDPOINT'' \<mapsto> Some ''https://x''] True False
   = Inr [PStr ''d'', PStr ''k'', PStr ''https://x'']
   \<and> azure_openai_settings_from_dot_env_as_dict
     [''AZURE_OPENAI_DEPLOYMENT_NAME'' \<mapsto> Some ''d'', ''AZURE_OPENAI_API_KEY'' \<mapsto> Some ''k'',
      ''AZURE_OPENAI_ENDPOINT'' \<mapsto> Some ''https://x''] True False
   = Inl (UnpackValueError 4 3)"
  by (simp add: azure_openai_settings_from_dot_env_as_dict_def azure_openai_settings_from_dot_env_def
        config_get_def or_empty_def)

subsection \<open>C2: a required key that is missing\<close>




subsection \<open>C3: the values an accessor returns\<close>




subsection \<open>C4: Azure Key Vault asked for the client secret only\<close>

text \<open>
  C4 says: no accessor returns a partially filled bundle; in particular
  \<open>azure_key_vault_settings_from_dot_env\<close> with \<open>include_client_id = False\<close> and
  \<open>include_client_secret = True\<close>, when it succeeds, returns a bundle that includes the
  client secret it validated, with fields present exactly when requested.  The code does
  not do this: the three-field tuple is returned only when both flags are set, and every
  other call returns \<open>(endpoint, client_id)\<close>.  Evaluated on a source with the endpoint and
  the client secret and no client id: the secret is checked and then left out, and the
  slot of the client id, which was not requested, is returned holding \<open>None\<close>.
\<close>

theorem azure_key_vault_secret_not_returned:
  "azure_key_vault_settings_from_dot_env
     [''AZURE_KEY_VAULT_ENDPOINT'' \<mapsto> Some ''https://v'',
      ''AZURE_KEY_VAULT_CLIENT_SECRET'' \<mapsto> Some ''s''] False True
   = Inr [PStr ''https://v'', PNone]"
  by (simp add: azure_key_vault_settings_from_dot_env_def config_get_def)

subsection \<open>C5: a quoted value with an equals sign inside\<close>

text \<open>
  C5 says: for every value containing an internal \<open>=\<close>, if the source stores the value
  double-quoted under \<open>PINECONE_API_KEY\<close> (or under an AstraDB key), the accessor returns
  exactly that value.  As stated this is false: \<^verbatim>\<open>strip('"')\<close> removes every trailing
  double quote, so a value that itself ends with one comes back shortened.  Here the
  value is \<open>a="b"\<close>, stored as \<open>"a="b""\<close>, and the accessor returns \<open>a="b\<close>.
\<close>

theorem quoted_value_inner_quote_counterexample:
  "pinecone_settings_from_dot_env
     (Some [''PINECONE_API_KEY='' @ [dquote] @ (''a='' @ [dquote] @ ''b'' @ [dquote]) @ [dquote]
              @ ''\<newline>'',
            ''PINECONE_ENVIRONMENT=env\<newline>''])
   = Inr [PStr (''a='' @ [dquote] @ ''b''), PStr ''env'']
   \<and> ''a='' @ [dquote] @ ''b'' \<noteq> ''a='' @ [dquote] @ ''b'' @ [dquote]"
  by (simp add: pinecone_settings_from_dot_env_def string_defs)

text \<open>
  C5 as amended: let \<open>v\<close> be a non-empty value that neither begins nor ends with a double
  quote (it may contain \<open>=\<close> anywhere), stored double-quoted under a key on a line that
  ends in white space only (its line terminator), with no later line beginning with the
  key's text.  Then, when the other keys of the accessor have non-empty values,
  \<open>pinecone_settings_from_dot_env\<close> returns \<open>v\<close> for \<open>PINECONE_API_KEY\<close>, and
  \<open>astradb_settings_from_dot_env\<close> returns \<open>v\<close> for each of its four keys.
\<close>

theorem quoted_value_roundtrip:
  assumes "v \<noteq> []" and "hd v \<noteq> dquote" and "last v \<noteq> dquote"
    and "\<forall>c \<in> set ws. isspace c"
    and "\<forall>l \<in> set post. \<not> startswith l key"
    and "lines = pre @ (key @ ''='' @ [dquote] @ v @ [dquote] @ ws) # post"
  shows "(key = ''PINECONE_API_KEY'' \<and> truthy (last_value ''PINECONE_ENVIRONMENT'' lines)
          \<longrightarrow> pinecone_settings_from_dot_env (Some lines)
              = Inr [PStr v, opt (last_value ''PINECONE_ENVIRONMENT'' lines)])
       \<and> (key = ''ASTRADB_APP_TOKEN'' \<and> truthy (last_value ''ASTRADB_ID'' lines)
            \<and> truthy (last_value ''ASTRADB_REGION'' lines)
            \<and> truthy (last_value ''ASTRADB_KEYSPACE'' lines)
          \<longrightarrow> astradb_settings_from_dot_env (Some lines)
              = Inr [PStr v, opt (last_value ''ASTRADB_ID'' lines),
                     opt (last_value ''ASTRADB_REGION'' lines),
                     opt (last_value ''ASTRADB_KEYSPACE'' lines)])
       \<and> (key = ''ASTRADB_ID'' \<and> truthy (last_value ''ASTRADB_APP_TOKEN'' lines)
            \<and> truthy (last_value ''ASTRADB_REGION'' lines)
            \<and> truthy (last_value ''ASTRADB_KEYSPACE'' lines)
          \<longrightarrow> astradb_settings_from_dot_env (Some lines)
              = Inr [opt (last_value ''ASTRADB_APP_TOKEN'' lines), PStr v,
                     opt (last_value ''ASTRADB_REGION'' lines),
                     opt (last_value ''ASTRADB_KEYSPACE'' lines)])
       \<and> (key = ''ASTRADB_REGION'' \<and> truthy (last_value ''ASTRADB_APP_TOKEN'' lines)
            \<and> truthy (last_value ''ASTRADB_ID'' lines)
            \<and> truthy (last_value ''ASTRADB_KEYSPACE'' lines)
          \<longrightarrow> astradb_settings_from_dot_env (Some lines)
              = Inr [opt (last_value ''ASTRADB_APP_TOKEN'' lines),
                     opt (last_value ''ASTRADB_ID'' lines), PStr v,
                     opt (last_value ''ASTRADB_KEYSPACE'' lines)])
       \<and> (key = ''ASTRADB_KEYSPACE'' \<and> truthy (last_value ''ASTRADB_APP_TOKEN'' lines)
            \<and> truthy (last_value ''ASTRADB_ID'' lines)
            \<and> truthy (last_value ''ASTRADB_REGION'' lines)
          \<longrightarrow> astradb_settings_from_dot_env (Some lines)
              = Inr [opt (last_value ''ASTRADB_APP_TOKEN'' lines),
                     opt (last_value ''ASTRADB_ID'' lines),
                     opt (last_value ''ASTRADB_REGION'' lines), PStr v])"
proof -
  have "CHR ''='' \<notin> set key \<Longrightarrow> last_value key lines = Some v"
    using last_value_quoted [of key v ws post pre] assms by simp
  then show ?thesis using assms(1)
    by (auto simp: pinecone_result astradb_result)
qed

text \<open>
  The amended statement at a Pinecone file whose API key is a connection string, and at
  an AstraDB file whose database id contains \<open>=\<close>.
\<close>

theorem quoted_value_roundtrip_witness:
  "pinecone_settings_from_dot_env
     (Some [''PINECONE_ENVIRONMENT=env\<newline>'',
            ''PINECONE_API_KEY='' @ [dquote] @ ''Endpoint=sb://x;Key=abc=='' @ [dquote] @ ''\<newline>''])
   = Inr [PStr ''Endpoint=sb://x;Key=abc=='', PStr ''env'']
   \<and> astradb_settings_from_dot_env
     (Some [''ASTRADB_APP_TOKEN=tok\<newline>'',
            ''ASTRADB_ID='' @ [dquote] @ ''id=7'' @ [dquote] @ ''\<newline>'',
            ''ASTRADB_REGION=eu\<newline>'', ''ASTRADB_KEYSPACE=ks\<newline>''])
   = Inr [PStr ''tok'', PStr ''id=7'', PStr ''eu'', PStr ''ks'']"
proof -
  let ?v = "''Endpoint=sb://x;Key=abc==''"
  let ?pl = "[''PINECONE_ENVIRONMENT=env\<newline>'',
              ''PINECONE_API_KEY='' @ [dquote] @ ?v @ [dquote] @ ''\<newline>'']"
  let ?al = "[''ASTRADB_APP_TOKEN=tok\<newline>'',
              ''ASTRADB_ID='' @ [dquote] @ ''id=7'' @ [dquote] @ ''\<newline>'',
              ''ASTRADB_REGION=eu\<newline>'', ''ASTRADB_KEYSPACE=ks\<newline>'']"
  have w: "\<forall>c \<in> set ''\<newline>''. isspace c" by (simp add: isspace_def)
  have v1: "?v \<noteq> []" and v2: "hd ?v \<noteq> dquote" and v3: "last ?v \<noteq> dquote"
    by (simp_all add: dquote_def)
  have pp: "\<forall>l \<in> set []. \<not> startswith l ''PINECONE_API_KEY''" by simp
  have pd: "?pl = [''PINECONE_ENVIRONMENT=env\<newline>'']
              @ (''PINECONE_API_KEY'' @ ''='' @ [dquote] @ ?v @ [dquote] @ ''\<newline>'') # []"
    by simp
  have i1: "''id=7'' \<noteq> []" and i2: "hd ''id=7'' \<noteq> dquote" and i3: "last ''id=7'' \<noteq> dquote"
    by (simp_all add: dquote_def)
  have ap: "\<forall>l \<in> set [''ASTRADB_REGION=eu\<newline>'', ''ASTRADB_KEYSPACE=ks\<newline>''].
              \<not> startswith l ''ASTRADB_ID''"
    by (simp add: startswith_def)
  have ad: "?al = [''ASTRADB_APP_TOKEN=tok\<newline>'']
              @ (''ASTRADB_ID'' @ ''='' @ [dquote] @ ''id=7'' @ [dquote] @ ''\<newline>'')
                # [''ASTRADB_REGION=eu\<newline>'', ''ASTRADB_KEYSPACE=ks\<newline>'']"
    by simp
  have pc: "''PINECONE_API_KEY'' = ''PINECONE_API_KEY''
              \<and> truthy (last_value ''PINECONE_ENVIRONMENT'' ?pl)"
    by (simp add: last_value_def string_defs)
  have po: "opt (last_value ''PINECONE_ENVIRONMENT'' ?pl) = PStr ''env''"
    by (simp add: last_value_def string_defs)
  have ac: "''ASTRADB_ID'' = ''ASTRADB_ID'' \<and> truthy (last_value ''ASTRADB_APP_TOKEN'' ?al)
              \<and> truthy (last_value ''ASTRADB_REGION'' ?al)
              \<and> truthy (last_value ''ASTRADB_KEYSPACE'' ?al)"
    by (simp add: last_value_def string_defs)
  have ao: "opt (last_value ''ASTRADB_APP_TOKEN'' ?al) = PStr ''tok''"
    "opt (last_value ''ASTRADB_REGION'' ?al) = PStr ''eu''"
    "opt (last_value ''ASTRADB_KEYSPACE'' ?al) = PStr ''ks''"
    by (simp_all add: last_value_def string_defs)
  have "pinecone_settings_from_dot_env (Some ?pl)
        = Inr [PStr ?v, opt (last_value ''PINECONE_ENVIRONMENT'' ?pl)]"
    using quoted_value_roundtrip [OF v1 v2 v3 w pp pd] pc by blast
  then have p: "pinecone_settings_from_dot_env (Some ?pl) = Inr [PStr ?v, PStr ''env'']"
    by (simp only: po)
  have "astradb_settings_from_dot_env (Some ?al)
        = Inr [opt (last_value ''ASTRADB_APP_TOKEN'' ?al), PStr ''id=7'',
               opt (last_value ''ASTRADB_REGION'' ?al), opt (last_value ''ASTRADB_KEYSPACE'' ?al)]"
    using quoted_value_roundtrip [OF i1 i2 i3 w ap ad] ac by blast
  then have a: "astradb_settings_from_dot_env (Some ?al)
                = Inr [PStr ''tok'', PStr ''id=7'', PStr ''eu'', PStr ''ks'']"
    by (simp only: ao)
  from p a show ?thesis by (rule conjI)
qed

subsection \<open>C6: how many layers of quotes the parser strips\<close>

text \<open>
  C6 says: the parser of the scanning accessors strips exactly one layer of surrounding
  double quotes: \<open>"v"\<close> yields \<open>v\<close> and \<open>""v""\<close> yields \<open>"v"\<close>.  As stated this is false:
  \<^verbatim>\<open>strip('"')\<close> removes every leading and trailing double quote, so \<open>""v""\<close> yields
  \<open>v\<close>.
\<close>

theorem parse_value_nested_quotes_counterexample:
  "parse_value (''PINECONE_API_KEY='' @ [dquote, dquote] @ ''v'' @ [dquote, dquote] @ ''\<newline>'')
     = ''v''
   \<and> ''v'' \<noteq> [dquote] @ ''v'' @ [dquote]"
  by (simp add: string_defs)

text \<open>
  C6 as amended: the parser strips every layer of surrounding double quotes.  For a value
  \<open>v\<close> that is empty or neither begins nor ends with a double quote, a line that assigns
  \<open>v\<close> wrapped in one or more double quotes on each side (\<open>"v"\<close>, \<open>""v""\<close>, and so on),
  followed by white space only, is parsed to \<open>v\<close>.
\<close>

theorem parse_value_strips_every_quote:
  assumes "CHR ''='' \<notin> set key" and "\<forall>c \<in> set ws. isspace c"
    and "v = [] \<or> (hd v \<noteq> dquote \<and> last v \<noteq> dquote)"
  shows "parse_value (key @ ''='' @ replicate (Suc n) dquote @ v @ replicate (Suc m) dquote @ ws) = v"
  using assms by (rule parse_value_quoted_id)

text \<open>The amended statement at one layer and at two layers of quotes around \<open>v\<close>.\<close>

theorem parse_value_strips_every_quote_witness:
  "parse_value (''PINECONE_API_KEY='' @ [dquote] @ ''v'' @ [dquote] @ ''\<newline>'') = ''v''
   \<and> parse_value (''PINECONE_API_KEY='' @ [dquote, dquote] @ ''v'' @ [dquote, dquote] @ ''\<newline>'')
       = ''v''"
proof -
  have k: "CHR ''='' \<notin> set ''PINECONE_API_KEY''" by simp
  have w: "\<forall>c \<in> set ''\<newline>''. isspace c" by (simp add: isspace_def)
  have v: "''v'' = [] \<or> (hd ''v'' \<noteq> dquote \<and> last ''v'' \<noteq> dquote)" by (simp add: dquote_def)
  from parse_value_strips_every_quote [OF k w v, of 0 0]
       parse_value_strips_every_quote [OF k w v, of "Suc 0" "Suc 0"]
  show ?thesis by simp
qed

subsection \<open>C7: Azure OpenAI without a deployment name\<close>

text \<open>
  C7: for every source without \<open>AZURE_OPENAI_DEPLOYMENT_NAME\<close>, whatever its other
  keys hold (in particular with a non-empty API key and endpoint),
  \<open>azure_openai_settings_from_dot_env\<close> called with \<open>include_deployment = True\<close> fails
  with the assertion error whose message names the deployment name.
\<close>

theorem azure_openai_deployment_required:
  assumes "config_get config ''AZURE_OPENAI_DEPLOYMENT_NAME'' = None"
  shows "azure_openai_settings_from_dot_env config True include_api_version
         = Inl (AssertionError ''Azure OpenAI deployment name not found in .env file'')"
  using assms by (simp add: azure_openai_settings_from_dot_env_def)

text \<open>The example of the specification: API key \<open>k\<close>, endpoint \<open>https://x\<close>, no deployment name.\<close>

theorem azure_openai_deployment_required_witness:
  "azure_openai_settings_from_dot_env
     [''AZURE_OPENAI_API_KEY'' \<mapsto> Some ''k'', ''AZURE_OPENAI_ENDPOINT'' \<mapsto> Some ''https://x'']
     True False
   = Inl (AssertionError ''Azure OpenAI deployment name not found in .env file'')"
proof -
  have "config_get [''AZURE_OPENAI_API_KEY'' \<mapsto> Some ''k'',
                    ''AZURE_OPENAI_ENDPOINT'' \<mapsto> Some ''https://x'']
          ''AZURE_OPENAI_DEPLOYMENT_NAME'' = None"
    by (simp add: config_get_def)
  then show ?thesis by (rule azure_openai_deployment_required)
qed

subsection \<open>C8: a key whose flag is false is not required\<close>

text \<open>
  C8: a call with an inclusion flag set to false does not fail on account of the flagged
  key.  For every source, with or without the flagged key: when the other keys pass
  their checks (API key and endpoint non-empty for Azure OpenAI, present for the others,
  and the key of the other flag present if that flag is set), the call succeeds.  This
  holds for \<open>azure_openai_settings_from_dot_env\<close> with \<open>include_deployment = False\<close> and
  with \<open>include_api_version = False\<close>, for \<open>azure_aisearch_settings_from_dot_env\<close> with
  \<open>include_index_name = False\<close>, and for \<open>azure_key_vault_settings_from_dot_env\<close> with
  \<open>include_client_id = False\<close> and with \<open>include_client_secret = False\<close>.  The last
  conjunct adds the dict variant of Azure OpenAI with \<open>include_deployment = False\<close>, when
  the API version is requested and present.
\<close>

theorem unrequested_key_not_required:
  "(truthy (config_get config ''AZURE_OPENAI_API_KEY'')
      \<and> truthy (config_get config ''AZURE_OPENAI_ENDPOINT'')
      \<and> (include_api_version \<longrightarrow> config_get config ''AZURE_OPENAI_API_VERSION'' \<noteq> None)
    \<longrightarrow> (\<exists>r. azure_openai_settings_from_dot_env config False include_api_version = Inr r))
   \<and> (truthy (config_get config ''AZURE_OPENAI_API_KEY'')
      \<and> truthy (config_get config ''AZURE_OPENAI_ENDPOINT'')
      \<and> (include_deployment \<longrightarrow> config_get config ''AZURE_OPENAI_DEPLOYMENT_NAME'' \<noteq> None)
    \<longrightarrow> (\<exists>r. azure_openai_settings_from_dot_env config include_deployment False = Inr r))
   \<and> (config_get config ''AZURE_AISEARCH_API_KEY'' \<noteq> None
      \<and> config_get config ''AZURE_AISEARCH_URL'' \<noteq> None
    \<longrightarrow> (\<exists>r. azure_aisearch_settings_from_dot_env config False = Inr r))
   \<and> (config_get config ''AZURE_KEY_VAULT_ENDPOINT'' \<noteq> None
      \<and> (include_client_secret \<longrightarrow> config_get config ''AZURE_KEY_VAULT_CLIENT_SECRET'' \<noteq> None)
    \<longrightarrow> (\<exists>r. azure_key_vault_settings_from_dot_env config False include_client_secret = Inr r))
   \<and> (config_get config ''AZURE_KEY_VAULT_ENDPOINT'' \<noteq> None
      \<and> (include_client_id \<longrightarrow> config_get config ''AZURE_KEY_VAULT_CLIENT_ID'' \<noteq> None)
    \<longrightarrow> (\<exists>r. azure_key_vault_settings_from_dot_env config include_client_id False = Inr r))
   \<and> (truthy (config_get config ''AZURE_OPENAI_API_KEY'')
      \<and> truthy (config_get config ''AZURE_OPENAI_ENDPOINT'')
      \<and> config_get config ''AZURE_OPENAI_API_VERSION'' \<noteq> None
    \<longrightarrow> (\<exists>r. azure_openai_settings_from_dot_env_as_dict config False True = Inr r))"
  by (simp add: azure_openai_settings_from_dot_env_def azure_aisearch_settings_from_dot_env_def
        azure_key_vault_settings_from_dot_env_def azure_openai_settings_from_dot_env_as_dict_def
        Let_def)

text \<open>
  A source that holds the unflagged keys of the three services and none of the flagged
  ones: every call with its flags false succeeds.  A second source holds the API version
  and no deployment name, for the dict variant.
\<close>

theorem unrequested_key_not_required_witness:
  "(\<exists>r. azure_openai_settings_from_dot_env
          [''AZURE_OPENAI_API_KEY'' \<mapsto> Some ''k'', ''AZURE_OPENAI_ENDPOINT'' \<mapsto> Some ''https://x'',
           ''AZURE_AISEARCH_API_KEY'' \<mapsto> Some ''s'', ''AZURE_AISEARCH_URL'' \<mapsto> Some ''https://s'',
           ''AZURE_KEY_VAULT_ENDPOINT'' \<mapsto> Some ''https://v''] False False = Inr r)
   \<and> (\<exists>r. azure_aisearch_settings_from_dot_env
          [''AZURE_OPENAI_API_KEY'' \<mapsto> Some ''k'', ''AZURE_OPENAI_ENDPOINT'' \<mapsto> Some ''https://x'',
           ''AZURE_AISEARCH_API_KEY'' \<mapsto> Some ''s'', ''AZURE_AISEARCH_URL'' \<mapsto> Some ''https://s'',
           ''AZURE_KEY_VAULT_ENDPOINT'' \<mapsto> Some ''https://v''] False = Inr r)
   \<and> (\<exists>r. azure_key_vault_settings_from_dot_env
          [''AZURE_OPENAI_API_KEY'' \<mapsto> Some ''k'', ''AZURE_OPENAI_ENDPOINT'' \<mapsto> Some ''https://x'',
           ''AZURE_AISEARCH_API_KEY'' \<mapsto> Some ''s'', ''AZURE_AISEARCH_URL'' \<mapsto> Some ''https://s'',
           ''AZURE_KEY_VAULT_ENDPOINT'' \<mapsto> Some ''https://v''] False False = Inr r)
   \<and> (\<exists>r. azure_openai_settings_from_dot_env_as_dict
          [''AZURE_OPENAI_API_KEY'' \<mapsto> Some ''k'', ''AZURE_OPENAI_ENDPOINT'' \<mapsto> Some ''https://x'',
           ''AZURE_OPENAI_API_VERSION'' \<mapsto> Some ''2024-02-01''] False True = Inr r)"
  using unrequested_key_not_required
          [of "[''AZURE_OPENAI_API_KEY'' \<mapsto> Some ''k'', ''AZURE_OPENAI_ENDPOINT'' \<mapsto> Some ''https://x'',
                ''AZURE_AISEARCH_API_KEY'' \<mapsto> Some ''s'', ''AZURE_AISEARCH_URL'' \<mapsto> Some ''https://s'',
                ''AZURE_KEY_VAULT_ENDPOINT'' \<mapsto> Some ''https://v'']" False False False False]
        unrequested_key_not_required
          [of "[''AZURE_OPENAI_API_KEY'' \<mapsto> Some ''k'', ''AZURE_OPENAI_ENDPOINT'' \<mapsto> Some ''https://x'',
                ''AZURE_OPENAI_API_VERSION'' \<mapsto> Some ''2024-02-01'']" False False False False]
  by (simp add: config_get_def)

subsection \<open>C9: the scanning accessors match a key by the beginning of the line\<close>

text \<open>
  C9: in \<open>pinecone_settings_from_dot_env\<close>, any line whose text begins with
  \<open>PINECONE_API_KEY\<close> (a line for a longer key such as \<open>PINECONE_API_KEY_BACKUP\<close>
  included) is parsed as an assignment to the API key, and the last such line wins: if
  \<open>l\<close> begins with that text and no later line does, the API key the accessor checks and
  returns is \<open>parse_value l\<close>.  The loop of \<open>astradb_settings_from_dot_env\<close> has the same
  shape (\<open>astradb_result\<close>).
\<close>

theorem pinecone_prefix_match_last_wins:
  assumes "startswith l ''PINECONE_API_KEY''"
    and "\<forall>l' \<in> set post. \<not> startswith l' ''PINECONE_API_KEY''"
  shows "pinecone_settings_from_dot_env (Some (pre @ l # post)) =
           (if parse_value l = []
            then Inl (AssertionError ''Pinecone API key not found in .env file'')
            else if \<not> truthy (last_value ''PINECONE_ENVIRONMENT'' (pre @ l # post))
            then Inl (AssertionError ''Pinecone environment not found in .env file'')
            else Inr [PStr (parse_value l),
                      opt (last_value ''PINECONE_ENVIRONMENT'' (pre @ l # post))])"
  using last_value_decomp [OF assms, of pre] by (simp add: pinecone_result)

text \<open>
  A file in which a line for \<open>PINECONE_API_KEY_BACKUP\<close> follows the line for
  \<open>PINECONE_API_KEY\<close>: the value of the backup key is returned as the API key.
\<close>

theorem pinecone_prefix_match_last_wins_witness:
  "pinecone_settings_from_dot_env
     (Some [''PINECONE_API_KEY=first\<newline>'', ''PINECONE_ENVIRONMENT=env\<newline>'',
            ''PINECONE_API_KEY_BACKUP=second\<newline>'', ''OTHER=x\<newline>''])
   = Inr [PStr ''second'', PStr ''env'']"
proof -
  have a: "startswith ''PINECONE_API_KEY_BACKUP=second\<newline>'' ''PINECONE_API_KEY''"
    by (simp add: startswith_def)
  have b: "\<forall>l' \<in> set [''OTHER=x\<newline>'']. \<not> startswith l' ''PINECONE_API_KEY''"
    by (simp add: startswith_def)
  from pinecone_prefix_match_last_wins
         [OF a b, of "[''PINECONE_API_KEY=first\<newline>'', ''PINECONE_ENVIRONMENT=env\<newline>'']"]
  show ?thesis by (simp add: last_value_def string_defs)
qed

subsection \<open>C10: the dict variant of Azure AI Search\<close>

text \<open>
  C10: \<open>azure_aisearch_settings_from_dot_env_as_dict\<close> always requires
  \<open>AZURE_AISEARCH_INDEX_NAME\<close>: on every source without that key it fails with an
  assertion error, although the tuple accessor without the flag succeeds on API key and
  URL alone.  It succeeds exactly when API key, URL and index name are present, and then
  returns the API key under the sub-mapping \<open>authentication\<close>, with type \<open>api_key\<close>,
  beside the fields \<open>endpoint\<close> and \<open>index_name\<close>.
\<close>

theorem azure_aisearch_dict_requires_index_name:
  "(config_get config ''AZURE_AISEARCH_INDEX_NAME'' = None
      \<longrightarrow> (\<exists>m. azure_aisearch_settings_from_dot_env_as_dict config = Inl (AssertionError m)))
   \<and> (azure_aisearch_settings_from_dot_env_as_dict config = Inr r
      \<longleftrightarrow> (\<exists>k u i. config_get config ''AZURE_AISEARCH_API_KEY'' = Some k
                 \<and> config_get config ''AZURE_AISEARCH_URL'' = Some u
                 \<and> config_get config ''AZURE_AISEARCH_INDEX_NAME'' = Some i
                 \<and> r = [(''authentication'', PDict [(''type'', PStr ''api_key''), (''key'', PStr k)]),
                        (''endpoint'', PStr u), (''index_name'', PStr i)]))
   \<and> (config_get config ''AZURE_AISEARCH_API_KEY'' = Some k'
      \<and> config_get config ''AZURE_AISEARCH_URL'' = Some u'
      \<longrightarrow> azure_aisearch_settings_from_dot_env config False = Inr [PStr k', PStr u'])"
  by (auto simp: azure_aisearch_settings_from_dot_env_as_dict_def
        azure_aisearch_settings_from_dot_env_def Let_def)

text \<open>
  A source with API key and URL and no index name, on which the dict variant fails and
  the tuple accessor succeeds, and the same source with an index name, on which the dict
  variant returns the nested mapping.
\<close>

theorem azure_aisearch_dict_requires_index_name_witness:
  "(\<exists>m. azure_aisearch_settings_from_dot_env_as_dict
          [''AZURE_AISEARCH_API_KEY'' \<mapsto> Some ''s'', ''AZURE_AISEARCH_URL'' \<mapsto> Some ''https://s'']
        = Inl (AssertionError m))
   \<and> azure_aisearch_settings_from_dot_env
          [''AZURE_AISEARCH_API_KEY'' \<mapsto> Some ''s'', ''AZURE_AISEARCH_URL'' \<mapsto> Some ''https://s'']
          False
        = Inr [PStr ''s'', PStr ''https://s'']
   \<and> azure_aisearch_settings_from_dot_env_as_dict
          [''AZURE_AISEARCH_API_KEY'' \<mapsto> Some ''s'', ''AZURE_AISEARCH_URL'' \<mapsto> Some ''https://s'',
           ''AZURE_AISEARCH_INDEX_NAME'' \<mapsto> Some ''idx'']
        = Inr [(''authentication'', PDict [(''type'', PStr ''api_key''), (''key'', PStr ''s'')]),
               (''endpoint'', PStr ''https://s''), (''index_name'', PStr ''idx'')]"
  using azure_aisearch_dict_requires_index_name
          [of "[''AZURE_AISEARCH_API_KEY'' \<mapsto> Some ''s'', ''AZURE_AISEARCH_URL'' \<mapsto> Some ''https://s'']"
              _ "''s''" "''https://s''"]
        azure_aisearch_dict_requires_index_name
          [of "[''AZURE_AISEARCH_API_KEY'' \<mapsto> Some ''s'', ''AZURE_AISEARCH_URL'' \<mapsto> Some ''https://s'',
                ''AZURE_AISEARCH_INDEX_NAME'' \<mapsto> Some ''idx'']"
              "[(''authentication'', PDict [(''type'', PStr ''api_key''), (''key'', PStr ''s'')]),
                (''endpoint'', PStr ''https://s''), (''index_name'', PStr ''idx'')]"]
  by (simp add: config_get_def)

end
